theory Spec2Isabelle
  imports Main
begin

unbundle bit_operations_syntax

section \<open>The processor module of CustomProc.py\<close>

text \<open>
  \<^verbatim>\<open>CustomProc.py\<close> is an IDA processor module: a class \<^verbatim>\<open>CustomProcessor\<close> with the
  four callbacks \<^verbatim>\<open>notify_ana\<close>, \<^verbatim>\<open>notify_emu\<close>, \<^verbatim>\<open>notify_out_operand\<close> and
  \<^verbatim>\<open>notify_out_insn\<close>. The callbacks mutate the instruction record they are given,
  add cross references and write to an output context. Here every callback is a function
  that takes the state it touches and returns it updated; a Python exception is a value
  of \<open>py_error\<close>.

  Python integers are unbounded, so every number is an \<open>int\<close> (an index produced by
  \<^verbatim>\<open>enumerate\<close> is a \<open>nat\<close>). The fixed widths of the fields of the host's
  \<^verbatim>\<open>insn_t\<close> and \<^verbatim>\<open>op_t\<close> are not part of the module and are not modelled.
\<close>

subsection \<open>Python values and errors\<close>

datatype py_error = IndexError | KeyError | Exception string

text \<open>What a callback returns: \<^verbatim>\<open>notify_ana\<close> returns \<^verbatim>\<open>insn.size\<close> or \<^verbatim>\<open>False\<close>.\<close>

datatype py_val = PyInt int | PyBool bool

text \<open>\<^verbatim>\<open>xs[i]\<close> on a Python list: a negative index counts from the end, an index out of
  range raises \<^verbatim>\<open>IndexError\<close>.\<close>

definition py_index :: "'a list \<Rightarrow> int \<Rightarrow> py_error + 'a" where
  "py_index xs i =
     (if 0 \<le> i \<and> i < int (length xs) then Inr (xs ! nat i)
      else if i < 0 \<and> - int (length xs) \<le> i then Inr (xs ! nat (int (length xs) + i))
      else Inl IndexError)"

subsection \<open>The host's constants (idaapi)\<close>

text \<open>The names the module imports with \<^verbatim>\<open>from idaapi import *\<close>, with the values of the
  IDA SDK. The theorems below use of them only that the operand types are distinct, that
  the data types are distinct, and the bits each feature flag names.\<close>

definition CF_STOP :: int where "CF_STOP = 0x0001"
definition CF_USE1 :: int where "CF_USE1 = 0x0100"
definition CF_USE2 :: int where "CF_USE2 = 0x0200"
definition CF_JUMP :: int where "CF_JUMP = 0x4000"

definition o_void :: int where "o_void = 0"
definition o_reg :: int where "o_reg = 1"
definition o_mem :: int where "o_mem = 2"
definition o_displ :: int where "o_displ = 4"
definition o_imm :: int where "o_imm = 5"
definition o_near :: int where "o_near = 7"
definition o_idpspec0 :: int where "o_idpspec0 = 8"

definition dt_byte :: int where "dt_byte = 0"
definition dt_word :: int where "dt_word = 1"
definition dt_dword :: int where "dt_dword = 2"

definition OOFW_IMM :: int where "OOFW_IMM = 0"
definition COLOR_ERROR :: int where "COLOR_ERROR = 0x12"

text \<open>The code cross reference types (\<^verbatim>\<open>enum cref_t\<close>); the module uses \<^verbatim>\<open>fl_JN\<close>
  (a near jump) and \<^verbatim>\<open>fl_F\<close> (ordinary flow).\<close>

datatype cref_t = fl_CF | fl_CN | fl_JF | fl_JN | fl_F

subsection \<open>Operands and instructions\<close>

text \<open>The fields of the host's \<^verbatim>\<open>op_t\<close> that the module reads. \<open>op_type\<close> is
  \<^verbatim>\<open>op.type\<close> and \<open>op_value\<close> is \<^verbatim>\<open>op.value\<close>.\<close>

record op_t =
  op_type :: int
  reg :: int
  op_value :: int
  addr :: int
  dtyp :: int
  specflag1 :: int
  specflag2 :: int
  specflag3 :: int
  specflag4 :: int

text \<open>The fields of the host's \<^verbatim>\<open>insn_t\<close>. \<open>insn_size\<close> is \<^verbatim>\<open>insn.size\<close>. The operands
  are a fixed array of slots in the host, all of them always present, so \<^verbatim>\<open>insn[n]\<close>
  is \<open>ops insn n\<close> and cannot fail.\<close>

record insn_t =
  ea :: int
  itype :: nat
  insn_size :: int
  ops :: "nat \<Rightarrow> op_t"

text \<open>What the module asks of the host: the byte at an address (\<^verbatim>\<open>get_byte\<close>), and the
  symbolic name expression of an address (\<^verbatim>\<open>out_name_expr\<close> writes it and returns true,
  or writes nothing and returns false: \<open>name_expr\<close> is \<open>Some\<close> of the text it writes, or
  \<open>None\<close>), and the constant \<^verbatim>\<open>BADADDR\<close>, which depends on the host's address width.\<close>

record host =
  get_byte :: "int \<Rightarrow> int"
  name_expr :: "op_t \<Rightarrow> int \<Rightarrow> int \<Rightarrow> string option"
  BADADDR :: int

text \<open>An instruction class of \<^verbatim>\<open>CustomProcInstructionSet.Instructions\<close>, of which the
  module reads \<^verbatim>\<open>name\<close>, \<^verbatim>\<open>feature\<close>, \<^verbatim>\<open>opcode\<close>, \<^verbatim>\<open>size\<close> (here \<open>cls_size\<close>) and
  calls \<^verbatim>\<open>emulate(insn)\<close>. The classes are not part of \<^verbatim>\<open>CustomProc.py\<close>: a class is a
  parameter. \<open>emulate\<close> may read the host's bytes, mutates the instruction record and
  may raise: it returns the record as it left it, and the exception if it raised one.\<close>

record insn_class =
  name :: string
  feature :: int
  opcode :: int
  cls_size :: int
  emulate :: "host \<Rightarrow> insn_t \<Rightarrow> insn_t \<times> py_error option"

text \<open>The class attributes of \<^verbatim>\<open>CustomProcessor\<close> that the callbacks read:
  \<^verbatim>\<open>reg_names\<close>, \<^verbatim>\<open>instruction_class_list\<close>, and \<^verbatim>\<open>NONE_REG\<close>, the sentinel register of
  \<^verbatim>\<open>CustomProcInstructionSet.Registers\<close>.\<close>

record processor =
  reg_names :: "string list"
  instruction_class_list :: "insn_class list"
  NONE_REG :: int

text \<open>\<^verbatim>\<open>instruc\<close>: one entry \<^verbatim>\<open>{'name': c.name, 'feature': c.feature}\<close> per class, in the
  order of the class list.\<close>

definition instruc :: "processor \<Rightarrow> (string \<times> int) list" where
  "instruc P = map (\<lambda>c. (name c, feature c)) (instruction_class_list P)"

text \<open>\<^verbatim>\<open>_init_instructions\<close>: the dictionary \<^verbatim>\<open>self.instructions\<close>, filled from
  \<^verbatim>\<open>enumerate(self.instruction_class_list)\<close>; an association list in insertion order,
  which is the order \<^verbatim>\<open>items()\<close> iterates in.\<close>

definition instructions :: "processor \<Rightarrow> (nat \<times> insn_class) list" where
  "instructions P = enumerate 0 (instruction_class_list P)"

text \<open>The host's \<^verbatim>\<open>insn.get_canon_feature()\<close> and \<^verbatim>\<open>insn.get_canon_mnem()\<close>: the
  feature and the name of \<^verbatim>\<open>instruc[itype]\<close> (\<^verbatim>\<open>instruc_start\<close> is 0 and
  \<^verbatim>\<open>instruc_end\<close> is \<^verbatim>\<open>len(instruc)\<close>); for an \<^verbatim>\<open>itype\<close> outside the table the host
  gives the feature 0 and no name.\<close>

definition get_canon_feature :: "processor \<Rightarrow> insn_t \<Rightarrow> int" where
  "get_canon_feature P insn =
     (if itype insn < length (instruc P) then snd (instruc P ! itype insn) else 0)"

definition get_canon_mnem :: "processor \<Rightarrow> insn_t \<Rightarrow> string option" where
  "get_canon_mnem P insn =
     (if itype insn < length (instruc P) then Some (fst (instruc P ! itype insn)) else None)"

subsection \<open>notify\_emu: the cross references of an instruction\<close>

text \<open>A code cross reference, as \<^verbatim>\<open>insn.add_cref(to, opoff, type)\<close> adds it: from the
  instruction's address \<^verbatim>\<open>insn.ea\<close> to \<^verbatim>\<open>to\<close>. The host's cross references are a list,
  in the order they were added.\<close>

record cref =
  frm :: int
  to :: int
  kind :: cref_t

definition add_cref :: "insn_t \<Rightarrow> int \<Rightarrow> int \<Rightarrow> cref_t \<Rightarrow> cref list \<Rightarrow> cref list" where
  "add_cref insn target opoff t xs = xs @ [\<lparr>frm = ea insn, to = target, kind = t\<rparr>]"

text \<open>
  \<^verbatim>\<open>
  def notify_emu(self, insn):
      ft = insn.get_canon_feature()
      a = insn[0].addr
      if ft & CF_JUMP:
          insn.add_cref(a, 0, fl_JN)
          if not insn.get_canon_mnem() in ["jmp", "vm_jmp"]:
              insn.add_cref(insn.ea + insn.size, 0, fl_F)
      elif not ft & CF_STOP and not ft & CF_JUMP:
          insn.add_cref(insn.ea + insn.size, 0, fl_F)
      return True
  \<close>
\<close>

definition notify_emu :: "processor \<Rightarrow> insn_t \<Rightarrow> cref list \<Rightarrow> cref list \<times> bool" where
  "notify_emu P insn xs =
     (let ft = get_canon_feature P insn;
          a = addr (ops insn 0)
      in if ft AND CF_JUMP \<noteq> 0 then
           (let xs1 = add_cref insn a 0 fl_JN xs
            in if \<not> (get_canon_mnem P insn \<in> set [Some ''jmp'', Some ''vm_jmp'']) then
                 (add_cref insn (ea insn + insn_size insn) 0 fl_F xs1, True)
               else (xs1, True))
         else if \<not> (ft AND CF_STOP \<noteq> 0) \<and> \<not> (ft AND CF_JUMP \<noteq> 0) then
           (add_cref insn (ea insn + insn_size insn) 0 fl_F xs, True)
         else (xs, True))"

subsection \<open>notify\_ana: recognising an instruction\<close>

text \<open>\<^verbatim>\<open>self.instructions[idx]\<close>: a dictionary lookup, which raises \<^verbatim>\<open>KeyError\<close> for a
  key that is not there.\<close>

definition instructions_at :: "processor \<Rightarrow> nat \<Rightarrow> py_error + insn_class" where
  "instructions_at P idx =
     (case map_of (instructions P) idx of None \<Rightarrow> Inl KeyError | Some c \<Rightarrow> Inr c)"

text \<open>
  \<^verbatim>\<open>
  def notify_ana(self, insn):
      ea = insn.ea
      opcode = get_byte(ea)
      for idx, cls in self.instructions.items():
          if cls.opcode == opcode:
              insn.itype = idx
              insn.size = self.instructions[idx].size
              self.instructions[idx].emulate(insn)
              return insn.size
      return False
  \<close>
  \<open>ana_match\<close> is the body of the \<^verbatim>\<open>if\<close>, for the item \<^verbatim>\<open>idx\<close> of the loop;
  \<open>ana_loop\<close> is the \<^verbatim>\<open>for\<close> loop over the items that are left, with the
  \<^verbatim>\<open>return False\<close> that follows it. The result is the instruction record as the call
  leaves it, and the value returned or the exception raised.
\<close>

definition ana_match ::
  "processor \<Rightarrow> host \<Rightarrow> nat \<Rightarrow> insn_t \<Rightarrow> insn_t \<times> (py_error + py_val)" where
  "ana_match P H idx insn =
     (let insn1 = insn\<lparr>itype := idx\<rparr>
      in case instructions_at P idx of
           Inl e \<Rightarrow> (insn1, Inl e)
         | Inr c \<Rightarrow>
            (let insn2 = insn1\<lparr>insn_size := cls_size c\<rparr>
             in case instructions_at P idx of
                  Inl e \<Rightarrow> (insn2, Inl e)
                | Inr c' \<Rightarrow>
                   (case emulate c' H insn2 of
                      (insn3, Some e) \<Rightarrow> (insn3, Inl e)
                    | (insn3, None) \<Rightarrow> (insn3, Inr (PyInt (insn_size insn3))))))"

fun ana_loop ::
  "processor \<Rightarrow> host \<Rightarrow> int \<Rightarrow> (nat \<times> insn_class) list \<Rightarrow> insn_t
     \<Rightarrow> insn_t \<times> (py_error + py_val)" where
  "ana_loop P H opc [] insn = (insn, Inr (PyBool False))"
| "ana_loop P H opc ((idx, cls) # rest) insn =
     (if opcode cls = opc then ana_match P H idx insn
      else ana_loop P H opc rest insn)"

definition notify_ana :: "processor \<Rightarrow> host \<Rightarrow> insn_t \<Rightarrow> insn_t \<times> (py_error + py_val)" where
  "notify_ana P H insn =
     (let a = ea insn;
          opc = get_byte H a
      in ana_loop P H opc (instructions P) insn)"

subsection \<open>The output context\<close>

text \<open>The output context \<^verbatim>\<open>outctx\<close> is the list of what has been written to it, one item
  per call of the host's output functions, in order: \<^verbatim>\<open>out_value(op, flags)\<close>,
  \<^verbatim>\<open>out_printf(s)\<close>, \<^verbatim>\<open>out_register(name)\<close>, \<^verbatim>\<open>out_long(v, radix)\<close>, the text of a
  name expression, \<^verbatim>\<open>out_tagon(c)\<close>, \<^verbatim>\<open>out_tagoff(c)\<close>, \<^verbatim>\<open>out_mnem()\<close> and
  \<^verbatim>\<open>flush_outbuf()\<close>. How the host lays an item out as characters (the width of the
  mnemonic field, the form of a hexadecimal number) is the host's.\<close>

datatype out_item =
    OutValue op_t int
  | OutPrintf string
  | OutRegister string
  | OutLong int int
  | OutName string
  | OutTagOn int
  | OutTagOff int
  | OutMnem
  | FlushOutbuf

type_synonym outctx = "out_item list"

text \<open>A statement that writes to the output context and may raise.\<close>

type_synonym step = "outctx \<Rightarrow> outctx \<times> py_error option"

definition out_value :: "op_t \<Rightarrow> int \<Rightarrow> step" where
  "out_value op flags ctx = (ctx @ [OutValue op flags], None)"

definition out_printf :: "string \<Rightarrow> step" where
  "out_printf s ctx = (ctx @ [OutPrintf s], None)"

definition out_register :: "string \<Rightarrow> step" where
  "out_register s ctx = (ctx @ [OutRegister s], None)"

definition out_long :: "int \<Rightarrow> int \<Rightarrow> step" where
  "out_long v radix ctx = (ctx @ [OutLong v radix], None)"

definition out_tagon :: "int \<Rightarrow> step" where
  "out_tagon c ctx = (ctx @ [OutTagOn c], None)"

definition out_tagoff :: "int \<Rightarrow> step" where
  "out_tagoff c ctx = (ctx @ [OutTagOff c], None)"

definition out_mnem :: step where
  "out_mnem ctx = (ctx @ [OutMnem], None)"

definition flush_outbuf :: step where
  "flush_outbuf ctx = (ctx @ [FlushOutbuf], None)"

text \<open>\<^verbatim>\<open>outctx.out_name_expr(op, ea, off)\<close>: writes the name expression and returns true,
  or writes nothing and returns false.\<close>

definition out_name_expr :: "host \<Rightarrow> op_t \<Rightarrow> int \<Rightarrow> int \<Rightarrow> outctx \<Rightarrow> outctx \<times> bool" where
  "out_name_expr H op a off ctx =
     (case name_expr H op a off of
        Some s \<Rightarrow> (ctx @ [OutName s], True)
      | None \<Rightarrow> (ctx, False))"

text \<open>\<^verbatim>\<open>outctx.out_register(self.reg_names[i])\<close>: the index is evaluated first and may
  raise.\<close>

definition out_register_at :: "processor \<Rightarrow> int \<Rightarrow> step" where
  "out_register_at P i ctx =
     (case py_index (reg_names P) i of
        Inl e \<Rightarrow> (ctx, Some e)
      | Inr s \<Rightarrow> out_register s ctx)"

text \<open>Statements one after the other: the first exception ends the sequence.\<close>

fun run :: "step list \<Rightarrow> step" where
  "run [] ctx = (ctx, None)"
| "run (s # ss) ctx =
     (case s ctx of
        (ctx', None) \<Rightarrow> run ss ctx'
      | (ctx', Some e) \<Rightarrow> (ctx', Some e))"

subsection \<open>notify\_out\_operand: the text of an operand\<close>

text \<open>
  \<^verbatim>\<open>
  def notify_out_operand(self, outctx, op):
      if op.type == o_imm:
          outctx.out_value(op, OOFW_IMM)
      elif op.type == o_displ:
          outctx.out_printf("[")
          outctx.out_register(self.reg_names[op.reg])
          outctx.out_printf(" + ")
          if op.value != NONE_REG :
              outctx.out_register(self.reg_names[op.value])
              outctx.out_printf(" + ")
          outctx.out_long(op.addr, 16)
          outctx.out_printf("]")
      elif op.type == o_reg:
          outctx.out_register(self.reg_names[op.reg])
      elif op.type in [o_near, o_mem]:
          ok = outctx.out_name_expr(op, op.addr, BADADDR)
          if not ok:
              outctx.out_tagon(COLOR_ERROR)
              outctx.out_long(op.addr, 16)
              outctx.out_tagoff(COLOR_ERROR)
      elif op.type == o_idpspec0:
          if op.dtyp == dt_byte:
              outctx.out_printf("byte ptr [")
          elif op.dtyp == dt_word:
              outctx.out_printf("word ptr [")
          elif op.dtyp == dt_dword:
              outctx.out_printf("dword ptr [")
          else:
              outctx.out_printf("[")
          outctx.out_register(self.reg_names[op.specflag1])
          outctx.out_printf(" + ")
          if op.specflag2 != NONE_REG :
              outctx.out_register(self.reg_names[op.specflag2])
              outctx.out_printf(" + ")
          if op.specflag3 != NONE_REG :
              outctx.out_register(self.reg_names[op.specflag3])
              outctx.out_printf(" + ")
          if op.specflag4 != NONE_REG :
              outctx.out_register(self.reg_names[op.specflag4])
              outctx.out_printf(" + ")
          outctx.out_long(op.value, 16)
          outctx.out_printf("]")
      return True
  \<close>
  \<open>out_operand_body\<close> is the chain of branches, \<open>notify_out_operand\<close> adds the
  \<^verbatim>\<open>return True\<close>.
\<close>

definition out_operand_body :: "processor \<Rightarrow> host \<Rightarrow> op_t \<Rightarrow> step" where
  "out_operand_body P H op =
     (if op_type op = o_imm then
        run [out_value op OOFW_IMM]
      else if op_type op = o_displ then
        run ([out_printf ''['',
              out_register_at P (reg op),
              out_printf '' + ''] @
             (if op_value op \<noteq> NONE_REG P then
                [out_register_at P (op_value op),
                 out_printf '' + '']
              else []) @
             [out_long (addr op) 16,
              out_printf '']''])
      else if op_type op = o_reg then
        run [out_register_at P (reg op)]
      else if op_type op \<in> set [o_near, o_mem] then
        (\<lambda>ctx. let (ctx1, ok) = out_name_expr H op (addr op) (BADADDR H) ctx
               in if \<not> ok then
                    run [out_tagon COLOR_ERROR,
                         out_long (addr op) 16,
                         out_tagoff COLOR_ERROR] ctx1
                  else (ctx1, None))
      else if op_type op = o_idpspec0 then
        run ([if dtyp op = dt_byte then out_printf ''byte ptr [''
              else if dtyp op = dt_word then out_printf ''word ptr [''
              else if dtyp op = dt_dword then out_printf ''dword ptr [''
              else out_printf ''['',
              out_register_at P (specflag1 op),
              out_printf '' + ''] @
             (if specflag2 op \<noteq> NONE_REG P then
                [out_register_at P (specflag2 op),
                 out_printf '' + '']
              else []) @
             (if specflag3 op \<noteq> NONE_REG P then
                [out_register_at P (specflag3 op),
                 out_printf '' + '']
              else []) @
             (if specflag4 op \<noteq> NONE_REG P then
                [out_register_at P (specflag4 op),
                 out_printf '' + '']
              else []) @
             [out_long (op_value op) 16,
              out_printf '']''])
      else (\<lambda>ctx. (ctx, None)))"

definition notify_out_operand ::
  "processor \<Rightarrow> host \<Rightarrow> outctx \<Rightarrow> op_t \<Rightarrow> outctx \<times> (py_error + bool)" where
  "notify_out_operand P H ctx op =
     (case out_operand_body P H op ctx of
        (ctx', Some e) \<Rightarrow> (ctx', Inl e)
      | (ctx', None) \<Rightarrow> (ctx', Inr True))"

subsection \<open>notify\_out\_insn: the text of an instruction\<close>

text \<open>The host's \<^verbatim>\<open>outctx.out_one_operand(n)\<close> hands operand \<^verbatim>\<open>n\<close> of the instruction
  back to the module's \<^verbatim>\<open>notify_out_operand\<close>; an exception raised there ends the
  caller too. (An operand the user has typed in by hand, which the host writes in the
  place of the module's text, is not part of the module and is left out.)\<close>

definition out_one_operand :: "processor \<Rightarrow> host \<Rightarrow> insn_t \<Rightarrow> nat \<Rightarrow> step" where
  "out_one_operand P H insn n ctx =
     (case notify_out_operand P H ctx (ops insn n) of
        (ctx', Inl e) \<Rightarrow> (ctx', Some e)
      | (ctx', Inr ok) \<Rightarrow> (ctx', None))"

text \<open>
  \<^verbatim>\<open>
  def notify_out_insn(self,outctx):
      insn=outctx.insn
      ft = insn.get_canon_feature()
      outctx.out_mnem()
      if ft & CF_USE1:
          outctx.out_one_operand(0)
      if ft & CF_USE2:
          outctx.out_printf(", ")
          outctx.out_one_operand(1)
      outctx.flush_outbuf()
  \<close>
  The instruction \<^verbatim>\<open>outctx.insn\<close> is an argument of its own.
\<close>

definition notify_out_insn :: "processor \<Rightarrow> host \<Rightarrow> insn_t \<Rightarrow> step" where
  "notify_out_insn P H insn ctx =
     (let ft = get_canon_feature P insn
      in run ([out_mnem] @
              (if ft AND CF_USE1 \<noteq> 0 then
                 [out_one_operand P H insn 0]
               else []) @
              (if ft AND CF_USE2 \<noteq> 0 then
                 [out_printf '', '',
                  out_one_operand P H insn 1]
               else []) @
              [flush_outbuf]) ctx)"

subsection \<open>The text of the output\<close>

text \<open>The characters the host lays the items out as, in a listing without colours. The
  host's \<^verbatim>\<open>out_mnem()\<close> is called with its default field width 8: it writes the mnemonic
  and pads the field with spaces up to that width, and with one space when the mnemonic
  fills the field. A string written with \<^verbatim>\<open>out_printf\<close>, a register name and a name
  expression are their own text; the colour tags and the flush have none. How a number is
  written (\<^verbatim>\<open>out_long\<close>, \<^verbatim>\<open>out_value\<close>) depends on the host's settings for the
  assembler: \<open>num\<close> is that layout, a parameter. \<open>mn\<close> is the mnemonic of the instruction
  that is written.\<close>

definition out_mnem_text :: "string \<Rightarrow> string" where
  "out_mnem_text mn = mn @ replicate (max 1 (8 - length mn)) (CHR '' '')"

fun item_text :: "(out_item \<Rightarrow> string) \<Rightarrow> string \<Rightarrow> out_item \<Rightarrow> string" where
  "item_text num mn OutMnem = out_mnem_text mn"
| "item_text num mn (OutPrintf s) = s"
| "item_text num mn (OutRegister s) = s"
| "item_text num mn (OutName s) = s"
| "item_text num mn (OutTagOn c) = []"
| "item_text num mn (OutTagOff c) = []"
| "item_text num mn FlushOutbuf = []"
| "item_text num mn (OutLong v r) = num (OutLong v r)"
| "item_text num mn (OutValue op f) = num (OutValue op f)"

definition line_text :: "(out_item \<Rightarrow> string) \<Rightarrow> string \<Rightarrow> out_item list \<Rightarrow> string" where
  "line_text num mn items = concat (map (item_text num mn) items)"

subsection \<open>A statement that only appends\<close>

text \<open>A statement only appends to the output context when what it writes and whether it
  raises do not depend on what has been written before.\<close>

definition appending :: "step \<Rightarrow> bool" where
  "appending s = (\<exists>out r. \<forall>c. s c = (c @ out, r))"

subsection \<open>A small instruction set, for concrete runs\<close>

text \<open>Operands as an \<^verbatim>\<open>emulate\<close> of the instruction set fills them in.\<close>

definition ex_void :: op_t where
  "ex_void = \<lparr>op_type = o_void, reg = 0, op_value = 0, addr = 0, dtyp = dt_byte,
              specflag1 = 0, specflag2 = 0, specflag3 = 0, specflag4 = 0\<rparr>"

definition ex_reg :: "int \<Rightarrow> op_t" where
  "ex_reg r = ex_void\<lparr>op_type := o_reg, reg := r\<rparr>"

definition ex_imm :: "int \<Rightarrow> op_t" where
  "ex_imm v = ex_void\<lparr>op_type := o_imm, op_value := v\<rparr>"

definition ex_near :: "int \<Rightarrow> op_t" where
  "ex_near a = ex_void\<lparr>op_type := o_near, addr := a\<rparr>"

definition ex_displ :: "int \<Rightarrow> int \<Rightarrow> int \<Rightarrow> op_t" where
  "ex_displ b i off = ex_void\<lparr>op_type := o_displ, reg := b, op_value := i, addr := off\<rparr>"

definition ex_sum :: "int \<Rightarrow> int \<Rightarrow> int \<Rightarrow> int \<Rightarrow> int \<Rightarrow> int \<Rightarrow> op_t" where
  "ex_sum w r1 r2 r3 r4 off =
     ex_void\<lparr>op_type := o_idpspec0, dtyp := w, op_value := off,
             specflag1 := r1, specflag2 := r2, specflag3 := r3, specflag4 := r4\<rparr>"

text \<open>Six instruction classes: a two-register move, a load of an immediate byte, a return,
  a conditional and an unconditional jump to the address in the next byte, and a jump
  through a table that declares no operand.\<close>

definition ex_mov :: insn_class where
  "ex_mov = \<lparr>name = ''mov'', feature = CF_USE1 OR CF_USE2, opcode = 1, cls_size = 3,
     emulate = (\<lambda>H insn. (insn\<lparr>ops := (ops insn)
        (0 := ex_reg (get_byte H (ea insn + 1)), 1 := ex_reg (get_byte H (ea insn + 2)))\<rparr>,
        None))\<rparr>"

definition ex_ldi :: insn_class where
  "ex_ldi = \<lparr>name = ''ldi'', feature = CF_USE1, opcode = 2, cls_size = 2,
     emulate = (\<lambda>H insn. (insn\<lparr>ops := (ops insn)
        (0 := ex_imm (get_byte H (ea insn + 1)))\<rparr>, None))\<rparr>"

definition ex_ret :: insn_class where
  "ex_ret = \<lparr>name = ''ret'', feature = CF_STOP, opcode = 3, cls_size = 1,
     emulate = (\<lambda>H insn. (insn, None))\<rparr>"

definition ex_jnz :: insn_class where
  "ex_jnz = \<lparr>name = ''jnz'', feature = CF_USE1 OR CF_JUMP, opcode = 4, cls_size = 2,
     emulate = (\<lambda>H insn. (insn\<lparr>ops := (ops insn)
        (0 := ex_near (get_byte H (ea insn + 1)))\<rparr>, None))\<rparr>"

definition ex_jmp :: insn_class where
  "ex_jmp = \<lparr>name = ''jmp'', feature = CF_USE1 OR CF_JUMP OR CF_STOP, opcode = 5,
     cls_size = 3,
     emulate = (\<lambda>H insn. (insn\<lparr>ops := (ops insn)
        (0 := ex_near (get_byte H (ea insn + 1)))\<rparr>, None))\<rparr>"

definition ex_jtab :: insn_class where
  "ex_jtab = \<lparr>name = ''jtab'', feature = CF_JUMP, opcode = 6, cls_size = 1,
     emulate = (\<lambda>H insn. (insn, None))\<rparr>"

definition ex_proc :: processor where
  "ex_proc = \<lparr>reg_names = [''R0'', ''R1'', ''R2'', ''R3'', ''CS'', ''DS''],
     instruction_class_list = [ex_mov, ex_ldi, ex_ret, ex_jnz, ex_jmp, ex_jtab],
     NONE_REG = 0xFF\<rparr>"

text \<open>A host whose program is the bytes \<open>bs\<close>, loaded at address 0, with no names. Where
  the program has no byte, the host's \<^verbatim>\<open>get_byte\<close> gives \<^verbatim>\<open>0xFF\<close>.\<close>

definition stream_host :: "int list \<Rightarrow> host" where
  "stream_host bs =
     \<lparr>get_byte = (\<lambda>a. if 0 \<le> a \<and> a < int (length bs) then bs ! nat a else 0xFF),
      name_expr = (\<lambda>op a off. None),
      BADADDR = 0xFFFFFFFF\<rparr>"

text \<open>The same host with one name, at address \<^verbatim>\<open>0x200\<close>.\<close>

definition named_host :: "int list \<Rightarrow> host" where
  "named_host bs =
     (stream_host bs)\<lparr>name_expr := (\<lambda>op a off. if a = 0x200 then Some ''loc_200'' else None)\<rparr>"

text \<open>An instruction record before analysis, and one after it: at address \<open>a\<close>, of class
  \<open>t\<close> and size \<open>n\<close>, with the operands \<open>o0\<close> and \<open>o1\<close> in the slots 0 and 1.\<close>

definition ex_fresh :: "int \<Rightarrow> insn_t" where
  "ex_fresh a = \<lparr>ea = a, itype = 0, insn_size = 0, ops = (\<lambda>n. ex_void)\<rparr>"

definition ex_insn :: "int \<Rightarrow> nat \<Rightarrow> int \<Rightarrow> op_t \<Rightarrow> op_t \<Rightarrow> insn_t" where
  "ex_insn a t n o0 o1 =
     \<lparr>ea = a, itype = t, insn_size = n,
      ops = (\<lambda>k. if k = 0 then o0 else if k = 1 then o1 else ex_void)\<rparr>"


section \<open>Lemmas\<close>

lemmas const_defs = CF_STOP_def CF_USE1_def CF_USE2_def CF_JUMP_def
  o_void_def o_reg_def o_mem_def o_displ_def o_imm_def o_near_def o_idpspec0_def
  dt_byte_def dt_word_def dt_dword_def OOFW_IMM_def COLOR_ERROR_def

lemmas ex_defs = ex_void_def ex_reg_def ex_imm_def ex_near_def ex_displ_def ex_sum_def
  ex_mov_def ex_ldi_def ex_ret_def ex_jnz_def ex_jmp_def ex_jtab_def ex_proc_def
  stream_host_def named_host_def ex_fresh_def ex_insn_def

lemmas canon_defs = get_canon_feature_def get_canon_mnem_def instruc_def

lemmas out_defs = out_value_def out_printf_def out_register_def out_long_def out_tagon_def
  out_tagoff_def out_mnem_def flush_outbuf_def

lemma replicate_five: "replicate 5 x = [x, x, x, x, x]"
  by (simp add: eval_nat_numeral)

subsection \<open>The loop of notify\_ana\<close>

lemma map_of_enumerate_nth:
  "i < length xs \<Longrightarrow> map_of (enumerate 0 xs) i = Some (xs ! i)"
  using map_of_zip_nth [of "[0..<length xs]" xs i] by (simp add: enumerate_eq_zip)

lemma instructions_at_nth:
  "idx < length (instruction_class_list P) \<Longrightarrow>
   instructions_at P idx = Inr (instruction_class_list P ! idx)"
  by (simp add: instructions_at_def instructions_def map_of_enumerate_nth)

lemma ana_match_eq:
  assumes "instructions_at P idx = Inr cls"
  shows "ana_match P H idx insn =
    (case emulate cls H (insn\<lparr>itype := idx, insn_size := cls_size cls\<rparr>) of
       (insn', Some e) \<Rightarrow> (insn', Inl e)
     | (insn', None) \<Rightarrow> (insn', Inr (PyInt (insn_size insn'))))"
  by (simp add: ana_match_def assms)

lemma ana_loop_nomatch:
  "\<forall>p\<in>set ps. opcode (snd p) \<noteq> opc \<Longrightarrow>
   ana_loop P H opc ps insn = (insn, Inr (PyBool False))"
  by (induction ps) auto

lemma ana_loop_first:
  assumes "\<forall>p\<in>set pre. opcode (snd p) \<noteq> opc" and "opcode cls = opc"
  shows "ana_loop P H opc (pre @ (idx, cls) # post) insn = ana_match P H idx insn"
  using assms by (induction pre) auto

lemma enumerate_split:
  assumes "idx < length cs"
  shows "enumerate 0 cs =
    enumerate 0 (take idx cs) @ (idx, cs ! idx) # enumerate (Suc idx) (drop (Suc idx) cs)"
proof -
  have "cs = take idx cs @ cs ! idx # drop (Suc idx) cs"
    using assms by (rule id_take_nth_drop)
  then have "enumerate 0 cs = enumerate 0 (take idx cs @ cs ! idx # drop (Suc idx) cs)"
    by simp
  also have "\<dots> =
    enumerate 0 (take idx cs) @ (idx, cs ! idx) # enumerate (Suc idx) (drop (Suc idx) cs)"
    using assms by (simp add: enumerate_append_eq min_def)
  finally show ?thesis .
qed

lemma notify_ana_at_first:
  assumes "idx < length (instruction_class_list P)"
    and "opcode (instruction_class_list P ! idx) = get_byte H (ea insn)"
    and "\<forall>j<idx. opcode (instruction_class_list P ! j) \<noteq> get_byte H (ea insn)"
  shows "notify_ana P H insn = ana_match P H idx insn"
proof -
  let ?cs = "instruction_class_list P"
  have pre: "\<forall>p\<in>set (enumerate 0 (take idx ?cs)). opcode (snd p) \<noteq> get_byte H (ea insn)"
    using assms(1,3) by (auto simp: in_set_enumerate_eq)
  show ?thesis
    unfolding notify_ana_def Let_def instructions_def
    by (subst enumerate_split [OF assms(1)]) (rule ana_loop_first [OF pre assms(2)])
qed

lemma notify_ana_at_none:
  assumes "\<forall>c\<in>set (instruction_class_list P). opcode c \<noteq> get_byte H (ea insn)"
  shows "notify_ana P H insn = (insn, Inr (PyBool False))"
  unfolding notify_ana_def Let_def instructions_def
  using assms by (intro ana_loop_nomatch) (auto simp: in_set_enumerate_eq)

subsection \<open>Statements in sequence\<close>

lemma run_append:
  "run (ss @ ts) ctx =
     (case run ss ctx of (ctx', None) \<Rightarrow> run ts ctx' | (ctx', Some e) \<Rightarrow> (ctx', Some e))"
  by (induction ss arbitrary: ctx) (auto split: prod.splits option.splits)

lemma out_register_at_ok:
  "py_index (reg_names P) i = Inr s \<Longrightarrow>
   out_register_at P i ctx = (ctx @ [OutRegister s], None)"
  by (simp add: out_register_at_def out_register_def)

lemma appendingI: "(\<And>c. s c = (c @ out, r)) \<Longrightarrow> appending s"
  unfolding appending_def by blast

lemma appending_run_Nil: "appending (run [])"
  by (rule appendingI [of _ "[]" None]) simp

lemma appending_run_Cons:
  assumes "appending s" and "appending (run ss)"
  shows "appending (run (s # ss))"
proof -
  from assms obtain o1 r1 o2 r2
    where s: "\<And>c. s c = (c @ o1, r1)" and ss: "\<And>c. run ss c = (c @ o2, r2)"
    unfolding appending_def by blast
  show ?thesis
  proof (cases r1)
    case None
    show ?thesis by (rule appendingI [of _ "o1 @ o2" r2]) (simp add: s None ss)
  next
    case (Some e)
    show ?thesis by (rule appendingI [of _ o1 "Some e"]) (simp add: s Some)
  qed
qed

lemma appending_run_append:
  assumes "appending (run ss)" and "appending (run ts)"
  shows "appending (run (ss @ ts))"
proof -
  from assms obtain o1 r1 o2 r2
    where ss: "\<And>c. run ss c = (c @ o1, r1)" and ts: "\<And>c. run ts c = (c @ o2, r2)"
    unfolding appending_def by blast
  show ?thesis
  proof (cases r1)
    case None
    show ?thesis by (rule appendingI [of _ "o1 @ o2" r2]) (simp add: run_append ss None ts)
  next
    case (Some e)
    show ?thesis by (rule appendingI [of _ o1 "Some e"]) (simp add: run_append ss Some)
  qed
qed

lemma appending_run_if:
  "appending (run ss) \<Longrightarrow> appending (run ts) \<Longrightarrow> appending (run (if b then ss else ts))"
  by simp

lemma appending_if:
  "appending s \<Longrightarrow> appending t \<Longrightarrow> appending (if b then s else t)"
  by simp

lemma appending_out_printf: "appending (out_printf t)"
  by (rule appendingI [of _ "[OutPrintf t]" None]) (simp add: out_printf_def)

lemma appending_out_long: "appending (out_long v r)"
  by (rule appendingI [of _ "[OutLong v r]" None]) (simp add: out_long_def)

lemma appending_out_value: "appending (out_value p f)"
  by (rule appendingI [of _ "[OutValue p f]" None]) (simp add: out_value_def)

lemma appending_out_register_at: "appending (out_register_at P i)"
proof (cases "py_index (reg_names P) i")
  case (Inl e)
  show ?thesis by (rule appendingI [of _ "[]" "Some e"]) (simp add: out_register_at_def Inl)
next
  case (Inr n)
  show ?thesis
    by (rule appendingI [of _ "[OutRegister n]" None])
       (simp add: out_register_at_def Inr out_register_def)
qed

lemma appending_name_branch:
  "appending (\<lambda>ctx. let (ctx1, ok) = out_name_expr H op a b ctx
         in if \<not> ok then run [out_tagon k, out_long v r, out_tagoff k] ctx1
            else (ctx1, None))"
proof (cases "name_expr H op a b")
  case None
  show ?thesis
    by (rule appendingI [of _ "[OutTagOn k, OutLong v r, OutTagOff k]" None])
       (simp add: out_name_expr_def None out_defs)
next
  case (Some t)
  show ?thesis
    by (rule appendingI [of _ "[OutName t]" None]) (simp add: out_name_expr_def Some)
qed

lemma appending_skip: "appending (\<lambda>ctx. (ctx, None))"
  by (rule appendingI [of _ "[]" None]) simp

lemma appending_out_operand_body: "appending (out_operand_body P H op)"
  unfolding out_operand_body_def
  by (intro appending_if appending_name_branch appending_skip appending_run_Nil
      appending_run_Cons appending_run_append appending_run_if appending_out_printf
      appending_out_long appending_out_value appending_out_register_at)

text \<open>What \<^verbatim>\<open>notify_out_operand\<close> writes and returns does not depend on what the output
  context holds already: the text of an operand is what it writes to an empty one.\<close>

lemma notify_out_operand_appends:
  "notify_out_operand P H ctx op =
     (ctx @ fst (notify_out_operand P H [] op), snd (notify_out_operand P H [] op))"
proof -
  obtain out r where b: "\<And>c. out_operand_body P H op c = (c @ out, r)"
    using appending_out_operand_body unfolding appending_def by blast
  show ?thesis
    by (cases r) (simp_all add: notify_out_operand_def b)
qed

lemma out_one_operand_ok:
  assumes "snd (notify_out_operand P H [] (ops insn n)) = Inr True"
  shows "out_one_operand P H insn n ctx =
    (ctx @ fst (notify_out_operand P H [] (ops insn n)), None)"
proof -
  have "notify_out_operand P H ctx (ops insn n) =
     (ctx @ fst (notify_out_operand P H [] (ops insn n)), Inr True)"
    using notify_out_operand_appends [of P H ctx "ops insn n"] assms by simp
  then show ?thesis by (simp add: out_one_operand_def)
qed

lemma direct_address_text:
  assumes "op_type op = o_near \<or> op_type op = o_mem"
  shows "notify_out_operand P H ctx op =
    (ctx @ (case name_expr H op (addr op) (BADADDR H) of
              Some s \<Rightarrow> [OutName s]
            | None \<Rightarrow> [OutTagOn COLOR_ERROR, OutLong (addr op) 16, OutTagOff COLOR_ERROR]),
     Inr True)"
  using assms
  by (auto simp add: notify_out_operand_def out_operand_body_def const_defs out_defs
      out_name_expr_def split: option.splits)

lemma notify_out_insn_text:
  assumes "get_canon_feature P insn AND CF_USE1 \<noteq> 0 \<Longrightarrow>
             snd (notify_out_operand P H [] (ops insn 0)) = Inr True"
    and "get_canon_feature P insn AND CF_USE2 \<noteq> 0 \<Longrightarrow>
             snd (notify_out_operand P H [] (ops insn 1)) = Inr True"
  shows "notify_out_insn P H insn ctx =
    (ctx @ [OutMnem] @
       (if get_canon_feature P insn AND CF_USE1 \<noteq> 0
        then fst (notify_out_operand P H [] (ops insn 0)) else []) @
       (if get_canon_feature P insn AND CF_USE2 \<noteq> 0
        then OutPrintf '', '' # fst (notify_out_operand P H [] (ops insn 1)) else []) @
       [FlushOutbuf], None)"
  using assms
  by (simp add: notify_out_insn_def Let_def out_defs out_one_operand_ok)


section \<open>The control-flow resolver\<close>

text \<open>C1: for a jump-class instruction (its feature has \<^verbatim>\<open>CF_JUMP\<close>), \<^verbatim>\<open>notify_emu\<close> adds
  a jump reference from the instruction to the address of operand 0, and after it a flow
  reference to \<^verbatim>\<open>ea + size\<close> exactly when the mnemonic is not one of \<^verbatim>\<open>jmp\<close>,
  \<^verbatim>\<open>vm_jmp\<close>. So a conditional jump gives two references, the jump first, and an
  unconditional jump gives the jump alone.\<close>

theorem notify_emu_jump_edges:
  assumes "get_canon_feature P insn AND CF_JUMP \<noteq> 0"
  shows "notify_emu P insn xs =
    (xs @ [\<lparr>frm = ea insn, to = addr (ops insn 0), kind = fl_JN\<rparr>] @
       (if get_canon_mnem P insn \<in> {Some ''jmp'', Some ''vm_jmp''} then []
        else [\<lparr>frm = ea insn, to = ea insn + insn_size insn, kind = fl_F\<rparr>]),
     True)"
  using assms by (simp add: notify_emu_def add_cref_def Let_def)

theorem notify_emu_jump_edges_witness:
  "notify_emu ex_proc (ex_insn 0x100 3 2 (ex_near 0x200) ex_void) [] =
     ([\<lparr>frm = 0x100, to = 0x200, kind = fl_JN\<rparr>,
       \<lparr>frm = 0x100, to = 0x102, kind = fl_F\<rparr>], True) \<and>
   notify_emu ex_proc (ex_insn 0x100 4 3 (ex_near 0x200) ex_void) [] =
     ([\<lparr>frm = 0x100, to = 0x200, kind = fl_JN\<rparr>], True)"
proof -
  have jnz: "get_canon_feature ex_proc (ex_insn 0x100 3 2 (ex_near 0x200) ex_void)
      AND CF_JUMP \<noteq> 0"
    by (simp add: canon_defs ex_defs const_defs)
  have jmp: "get_canon_feature ex_proc (ex_insn 0x100 4 3 (ex_near 0x200) ex_void)
      AND CF_JUMP \<noteq> 0"
    by (simp add: canon_defs ex_defs const_defs)
  show ?thesis
    using notify_emu_jump_edges [OF jnz, of "[]"] notify_emu_jump_edges [OF jmp, of "[]"]
    by (simp add: canon_defs ex_defs const_defs)
qed

text \<open>C4: for an instruction that is not jump-class, \<^verbatim>\<open>notify_emu\<close> adds the one flow
  reference from \<^verbatim>\<open>ea\<close> to \<^verbatim>\<open>ea + size\<close> when the instruction is not stop-class (its
  feature has no \<^verbatim>\<open>CF_STOP\<close>), and adds nothing when it is stop-class.\<close>

theorem notify_emu_nonjump_edges:
  assumes "get_canon_feature P insn AND CF_JUMP = 0"
  shows "notify_emu P insn xs =
    (xs @ (if get_canon_feature P insn AND CF_STOP = 0
           then [\<lparr>frm = ea insn, to = ea insn + insn_size insn, kind = fl_F\<rparr>]
           else []),
     True)"
  using assms by (simp add: notify_emu_def add_cref_def Let_def)

theorem notify_emu_nonjump_edges_witness:
  "notify_emu ex_proc (ex_insn 0x100 0 3 (ex_reg 0) (ex_reg 1)) [] =
     ([\<lparr>frm = 0x100, to = 0x103, kind = fl_F\<rparr>], True) \<and>
   notify_emu ex_proc (ex_insn 0x100 2 1 ex_void ex_void) [] = ([], True)"
proof -
  have mov: "get_canon_feature ex_proc (ex_insn 0x100 0 3 (ex_reg 0) (ex_reg 1))
      AND CF_JUMP = 0"
    by (simp add: canon_defs ex_defs const_defs)
  have ret: "get_canon_feature ex_proc (ex_insn 0x100 2 1 ex_void ex_void) AND CF_JUMP = 0"
    by (simp add: canon_defs ex_defs const_defs)
  show ?thesis
    using notify_emu_nonjump_edges [OF mov, of "[]"] notify_emu_nonjump_edges [OF ret, of "[]"]
    by (simp add: canon_defs ex_defs const_defs)
qed

text \<open>C10: the target of the jump reference of a jump-class instruction is the \<^verbatim>\<open>addr\<close>
  field of operand slot 0, whatever the feature says about the operands in use: the
  statement has no condition on \<^verbatim>\<open>CF_USE1\<close> or \<^verbatim>\<open>CF_USE2\<close>. The reference is the first
  one the call adds, at position \<open>length xs\<close> of the list.\<close>

theorem notify_emu_jump_target_slot0:
  assumes "get_canon_feature P insn AND CF_JUMP \<noteq> 0"
  shows "fst (notify_emu P insn xs) ! length xs =
    \<lparr>frm = ea insn, to = addr (ops insn 0), kind = fl_JN\<rparr>"
  using assms by (simp add: notify_emu_def add_cref_def Let_def nth_append)

text \<open>The class \<open>ex_jtab\<close> declares no operand (its feature is \<^verbatim>\<open>CF_JUMP\<close> alone), and
  the jump goes to the \<^verbatim>\<open>addr\<close> that slot 0 happens to hold.\<close>

theorem notify_emu_jump_target_slot0_witness:
  "get_canon_feature ex_proc (ex_insn 0x100 5 1 (ex_near 0x200) ex_void) AND CF_USE1 = 0 \<and>
   fst (notify_emu ex_proc (ex_insn 0x100 5 1 (ex_near 0x200) ex_void) []) ! 0 =
     \<lparr>frm = 0x100, to = 0x200, kind = fl_JN\<rparr>"
proof -
  have jtab: "get_canon_feature ex_proc (ex_insn 0x100 5 1 (ex_near 0x200) ex_void)
      AND CF_JUMP \<noteq> 0"
    by (simp add: canon_defs ex_defs const_defs)
  show ?thesis
    using notify_emu_jump_target_slot0 [OF jtab, of "[]"]
    by (simp add: canon_defs ex_defs const_defs)
qed

section \<open>The instruction matcher\<close>

text \<open>C3: \<^verbatim>\<open>notify_ana\<close> reads the byte at \<^verbatim>\<open>insn.ea\<close> and scans the table in table order.
  When \<open>idx\<close> is the first index whose class has that byte as its opcode, the matcher sets
  \<^verbatim>\<open>itype\<close> to \<open>idx\<close> and \<^verbatim>\<open>size\<close> to the size of that class, calls the \<^verbatim>\<open>emulate\<close> of
  that class on the record, and returns the \<^verbatim>\<open>size\<close> of the record that \<^verbatim>\<open>emulate\<close> leaves
  (or raises what \<^verbatim>\<open>emulate\<close> raises). When no class has the byte as its opcode it returns
  \<^verbatim>\<open>False\<close>.\<close>

theorem notify_ana_first_match:
  "(\<forall>idx. idx < length (instruction_class_list P) \<and>
      opcode (instruction_class_list P ! idx) = get_byte H (ea insn) \<and>
      (\<forall>j<idx. opcode (instruction_class_list P ! j) \<noteq> get_byte H (ea insn)) \<longrightarrow>
      notify_ana P H insn =
        (case emulate (instruction_class_list P ! idx) H
                (insn\<lparr>itype := idx, insn_size := cls_size (instruction_class_list P ! idx)\<rparr>) of
           (insn', Some e) \<Rightarrow> (insn', Inl e)
         | (insn', None) \<Rightarrow> (insn', Inr (PyInt (insn_size insn'))))) \<and>
   ((\<forall>c\<in>set (instruction_class_list P). opcode c \<noteq> get_byte H (ea insn)) \<longrightarrow>
      snd (notify_ana P H insn) = Inr (PyBool False))"
proof (intro conjI allI impI)
  fix idx
  assume a: "idx < length (instruction_class_list P) \<and>
      opcode (instruction_class_list P ! idx) = get_byte H (ea insn) \<and>
      (\<forall>j<idx. opcode (instruction_class_list P ! j) \<noteq> get_byte H (ea insn))"
  then have "notify_ana P H insn = ana_match P H idx insn"
    by (intro notify_ana_at_first) simp_all
  also have "\<dots> =
    (case emulate (instruction_class_list P ! idx) H
            (insn\<lparr>itype := idx, insn_size := cls_size (instruction_class_list P ! idx)\<rparr>) of
       (insn', Some e) \<Rightarrow> (insn', Inl e)
     | (insn', None) \<Rightarrow> (insn', Inr (PyInt (insn_size insn'))))"
    using a by (intro ana_match_eq instructions_at_nth) simp
  finally show "notify_ana P H insn =
    (case emulate (instruction_class_list P ! idx) H
            (insn\<lparr>itype := idx, insn_size := cls_size (instruction_class_list P ! idx)\<rparr>) of
       (insn', Some e) \<Rightarrow> (insn', Inl e)
     | (insn', None) \<Rightarrow> (insn', Inr (PyInt (insn_size insn'))))" .
next
  assume "\<forall>c\<in>set (instruction_class_list P). opcode c \<noteq> get_byte H (ea insn)"
  then show "snd (notify_ana P H insn) = Inr (PyBool False)"
    by (simp add: notify_ana_at_none)
qed

text \<open>The two bytes \<^verbatim>\<open>02 05\<close> are the class at index 1, the load of an immediate byte:
  size 2, operand 0 the immediate 5. The byte \<^verbatim>\<open>99\<close> is no opcode.\<close>

theorem notify_ana_first_match_witness:
  "notify_ana ex_proc (stream_host [2, 5]) (ex_fresh 0) =
     (\<lparr>ea = 0, itype = 1, insn_size = 2, ops = (\<lambda>n. ex_void)(0 := ex_imm 5)\<rparr>,
      Inr (PyInt 2)) \<and>
   snd (notify_ana ex_proc (stream_host [0x99]) (ex_fresh 0)) = Inr (PyBool False)"
proof -
  have first: "(1::nat) < length (instruction_class_list ex_proc) \<and>
      opcode (instruction_class_list ex_proc ! 1) =
        get_byte (stream_host [2, 5]) (ea (ex_fresh 0)) \<and>
      (\<forall>j<1. opcode (instruction_class_list ex_proc ! j) \<noteq>
        get_byte (stream_host [2, 5]) (ea (ex_fresh 0)))"
    by (simp add: ex_defs)
  have none: "\<forall>c\<in>set (instruction_class_list ex_proc).
      opcode c \<noteq> get_byte (stream_host [0x99]) (ea (ex_fresh 0))"
    by (simp add: ex_defs)
  have "notify_ana ex_proc (stream_host [2, 5]) (ex_fresh 0) =
      (case emulate (instruction_class_list ex_proc ! 1) (stream_host [2, 5])
              ((ex_fresh 0)\<lparr>itype := 1,
                 insn_size := cls_size (instruction_class_list ex_proc ! 1)\<rparr>) of
         (insn', Some e) \<Rightarrow> (insn', Inl e)
       | (insn', None) \<Rightarrow> (insn', Inr (PyInt (insn_size insn'))))"
    using notify_ana_first_match [of ex_proc "stream_host [2, 5]" "ex_fresh 0"] first
    by blast
  moreover have "snd (notify_ana ex_proc (stream_host [0x99]) (ex_fresh 0)) =
      Inr (PyBool False)"
    using notify_ana_first_match [of ex_proc "stream_host [0x99]" "ex_fresh 0"] none
    by blast
  ultimately show ?thesis
    by (simp add: ex_defs)
qed

text \<open>C9: when no class has the byte at \<^verbatim>\<open>insn.ea\<close> as its opcode, \<^verbatim>\<open>notify_ana\<close> returns
  \<^verbatim>\<open>False\<close> and the instruction record is the one it was given: \<^verbatim>\<open>itype\<close>, \<^verbatim>\<open>size\<close>
  and the operands are untouched.\<close>

theorem notify_ana_unrecognized_atomic:
  assumes "\<forall>c\<in>set (instruction_class_list P). opcode c \<noteq> get_byte H (ea insn)"
  shows "fst (notify_ana P H insn) = insn \<and>
         itype (fst (notify_ana P H insn)) = itype insn \<and>
         insn_size (fst (notify_ana P H insn)) = insn_size insn \<and>
         ops (fst (notify_ana P H insn)) = ops insn \<and>
         snd (notify_ana P H insn) = Inr (PyBool False)"
  by (simp add: notify_ana_at_none [OF assms])

theorem notify_ana_unrecognized_atomic_witness:
  "fst (notify_ana ex_proc (stream_host [0x99, 5])
          (ex_insn 0 3 7 (ex_reg 2) (ex_imm 9))) =
     ex_insn 0 3 7 (ex_reg 2) (ex_imm 9) \<and>
   snd (notify_ana ex_proc (stream_host [0x99, 5])
          (ex_insn 0 3 7 (ex_reg 2) (ex_imm 9))) = Inr (PyBool False)"
proof -
  have none: "\<forall>c\<in>set (instruction_class_list ex_proc).
      opcode c \<noteq> get_byte (stream_host [0x99, 5]) (ea (ex_insn 0 3 7 (ex_reg 2) (ex_imm 9)))"
    by (simp add: ex_defs)
  show ?thesis
    using notify_ana_unrecognized_atomic [OF none] by simp
qed

text \<open>C2, as the specification states it, fails: the matcher has no condition for a
  truncated instruction. Here the program is the single byte \<^verbatim>\<open>02\<close>, the opcode of the
  load of an immediate byte, whose size is 2 and whose \<^verbatim>\<open>emulate\<close> reads the byte at
  \<^verbatim>\<open>ea + 1\<close>. That byte is beyond the program, the host's \<^verbatim>\<open>get_byte\<close> gives \<^verbatim>\<open>0xFF\<close>
  for it, and \<^verbatim>\<open>notify_ana\<close> returns the size 2 with the immediate \<^verbatim>\<open>0xFF\<close>: it does not
  return \<^verbatim>\<open>False\<close>.\<close>

theorem notify_ana_truncated_counterexample:
  "int (length [2::int]) < ea (ex_fresh 0) + cls_size ex_ldi \<and>
   snd (notify_ana ex_proc (stream_host [2]) (ex_fresh 0)) = Inr (PyInt 2) \<and>
   snd (notify_ana ex_proc (stream_host [2]) (ex_fresh 0)) \<noteq> Inr (PyBool False) \<and>
   ops (fst (notify_ana ex_proc (stream_host [2]) (ex_fresh 0))) 0 = ex_imm 0xFF"
  by (simp add: notify_ana_def ana_match_def instructions_at_def instructions_def ex_defs)

text \<open>C2, amended: for a matched definition whose size reaches beyond the end of the
  program (the bytes \<open>bs\<close>, loaded at address 0), \<^verbatim>\<open>notify_ana\<close> does not fail with a
  condition of its own. It checks no bound: it sets \<^verbatim>\<open>itype\<close> and \<^verbatim>\<open>size\<close>, calls the
  \<^verbatim>\<open>emulate\<close> of the definition and returns the \<^verbatim>\<open>size\<close> that \<^verbatim>\<open>emulate\<close> leaves, or
  raises what \<^verbatim>\<open>emulate\<close> raises. What a read beyond the program gives is left to the
  host's \<^verbatim>\<open>get_byte\<close> and to \<^verbatim>\<open>emulate\<close>.\<close>

theorem notify_ana_no_truncation_check:
  assumes "idx < length (instruction_class_list P)"
    and "opcode (instruction_class_list P ! idx) = get_byte (stream_host bs) (ea insn)"
    and "\<forall>j<idx. opcode (instruction_class_list P ! j) \<noteq> get_byte (stream_host bs) (ea insn)"
    and "int (length bs) < ea insn + cls_size (instruction_class_list P ! idx)"
  shows "notify_ana P (stream_host bs) insn =
    (case emulate (instruction_class_list P ! idx) (stream_host bs)
            (insn\<lparr>itype := idx, insn_size := cls_size (instruction_class_list P ! idx)\<rparr>) of
       (insn', Some e) \<Rightarrow> (insn', Inl e)
     | (insn', None) \<Rightarrow> (insn', Inr (PyInt (insn_size insn'))))"
proof -
  have "notify_ana P (stream_host bs) insn = ana_match P (stream_host bs) idx insn"
    using assms(1-3) by (rule notify_ana_at_first)
  also have "\<dots> =
    (case emulate (instruction_class_list P ! idx) (stream_host bs)
            (insn\<lparr>itype := idx, insn_size := cls_size (instruction_class_list P ! idx)\<rparr>) of
       (insn', Some e) \<Rightarrow> (insn', Inl e)
     | (insn', None) \<Rightarrow> (insn', Inr (PyInt (insn_size insn'))))"
    by (rule ana_match_eq [OF instructions_at_nth [OF assms(1)]])
  finally show ?thesis .
qed

text \<open>The program is the one byte \<^verbatim>\<open>02\<close>; the definition at index 1 has the size 2.\<close>

theorem notify_ana_no_truncation_check_witness:
  "notify_ana ex_proc (stream_host [2]) (ex_fresh 0) =
     (\<lparr>ea = 0, itype = 1, insn_size = 2, ops = (\<lambda>n. ex_void)(0 := ex_imm 0xFF)\<rparr>,
      Inr (PyInt 2))"
proof -
  have i: "(1::nat) < length (instruction_class_list ex_proc)"
    by (simp add: ex_defs)
  have m: "opcode (instruction_class_list ex_proc ! 1) =
      get_byte (stream_host [2]) (ea (ex_fresh 0))"
    by (simp add: ex_defs)
  have f: "\<forall>j<1. opcode (instruction_class_list ex_proc ! j) \<noteq>
      get_byte (stream_host [2]) (ea (ex_fresh 0))"
    by (simp add: ex_defs)
  have t: "int (length [2::int]) <
      ea (ex_fresh 0) + cls_size (instruction_class_list ex_proc ! 1)"
    by (simp add: ex_defs)
  show ?thesis
    using notify_ana_no_truncation_check [OF i m f t] by (simp add: ex_defs)
qed

section \<open>The operand renderer\<close>

text \<open>C6: for a displacement operand (\<^verbatim>\<open>o_displ\<close>) whose base register, and whose index
  register when it is not the sentinel, are registers of the table, \<^verbatim>\<open>notify_out_operand\<close>
  writes \<^verbatim>\<open>[\<close>, the base register, \<^verbatim>\<open> + \<close>, then the index register and \<^verbatim>\<open> + \<close> only when
  the index is not \<^verbatim>\<open>NONE_REG\<close>, then the offset \<^verbatim>\<open>op.addr\<close> in radix 16 and \<^verbatim>\<open>]\<close>. With
  the sentinel as index the output is \<^verbatim>\<open>[\<close>, base, \<^verbatim>\<open> + \<close>, offset, \<^verbatim>\<open>]\<close>: no index and
  no second \<^verbatim>\<open> + \<close>.\<close>

theorem out_operand_displacement:
  assumes "op_type op = o_displ"
    and "py_index (reg_names P) (reg op) = Inr base"
    and "op_value op \<noteq> NONE_REG P \<Longrightarrow> py_index (reg_names P) (op_value op) = Inr index"
  shows "notify_out_operand P H ctx op =
      (ctx @ [OutPrintf ''['', OutRegister base, OutPrintf '' + ''] @
         (if op_value op \<noteq> NONE_REG P then [OutRegister index, OutPrintf '' + ''] else []) @
         [OutLong (addr op) 16, OutPrintf '']''],
       Inr True) \<and>
    (op_value op = NONE_REG P \<longrightarrow>
       notify_out_operand P H ctx op =
         (ctx @ [OutPrintf ''['', OutRegister base, OutPrintf '' + '',
                 OutLong (addr op) 16, OutPrintf '']''],
          Inr True))"
  using assms
  by (simp add: notify_out_operand_def out_operand_body_def const_defs out_defs
      out_register_at_ok)

text \<open>The operand \<^verbatim>\<open>[R1 + 10h]\<close> with no index, and the operand with the index \<^verbatim>\<open>R2\<close>.\<close>

theorem out_operand_displacement_witness:
  "notify_out_operand ex_proc (stream_host []) [] (ex_displ 1 0xFF 0x10) =
     ([OutPrintf ''['', OutRegister ''R1'', OutPrintf '' + '', OutLong 0x10 16,
       OutPrintf '']''], Inr True) \<and>
   notify_out_operand ex_proc (stream_host []) [] (ex_displ 1 2 0x10) =
     ([OutPrintf ''['', OutRegister ''R1'', OutPrintf '' + '', OutRegister ''R2'',
       OutPrintf '' + '', OutLong 0x10 16, OutPrintf '']''], Inr True)"
proof -
  have t: "op_type (ex_displ 1 i 0x10) = o_displ" for i
    by (simp add: ex_defs)
  have b: "py_index (reg_names ex_proc) (reg (ex_displ 1 i 0x10)) = Inr ''R1''" for i
    by (simp add: py_index_def ex_defs)
  have i1: "op_value (ex_displ 1 0xFF 0x10) \<noteq> NONE_REG ex_proc \<Longrightarrow>
      py_index (reg_names ex_proc) (op_value (ex_displ 1 0xFF 0x10)) = Inr ''R2''"
    by (simp add: ex_defs)
  have i2: "op_value (ex_displ 1 2 0x10) \<noteq> NONE_REG ex_proc \<Longrightarrow>
      py_index (reg_names ex_proc) (op_value (ex_displ 1 2 0x10)) = Inr ''R2''"
    by (simp add: py_index_def ex_defs)
  show ?thesis
    using out_operand_displacement [OF t b i1, where H = "stream_host []" and ctx = "[]"]
      out_operand_displacement [OF t b i2, where H = "stream_host []" and ctx = "[]"]
    by (simp add: ex_defs)
qed

text \<open>C5: for an operand of the type \<^verbatim>\<open>o_idpspec0\<close>, the sum of up to four registers,
  whose first register, and whose second to fourth registers when they are not the
  sentinel, are registers of the table, \<^verbatim>\<open>notify_out_operand\<close> writes the size prefix of
  \<^verbatim>\<open>op.dtyp\<close> (\<^verbatim>\<open>byte ptr\<close>, \<^verbatim>\<open>word ptr\<close>, \<^verbatim>\<open>dword ptr\<close>, or nothing) and \<^verbatim>\<open>[\<close>, then the
  first register and \<^verbatim>\<open> + \<close>, then in slot order each of the other registers with its
  \<^verbatim>\<open> + \<close> only when the slot is not \<^verbatim>\<open>NONE_REG\<close>, then the offset \<^verbatim>\<open>op.value\<close> in radix 16
  and \<^verbatim>\<open>]\<close>. With only the first register and the width byte, the output is
  \<^verbatim>\<open>byte ptr [\<close>, the register, \<^verbatim>\<open> + \<close>, the offset, \<^verbatim>\<open>]\<close>.\<close>

theorem out_operand_multi_base_sum:
  assumes "op_type op = o_idpspec0"
    and "py_index (reg_names P) (specflag1 op) = Inr r1"
    and "specflag2 op \<noteq> NONE_REG P \<Longrightarrow> py_index (reg_names P) (specflag2 op) = Inr r2"
    and "specflag3 op \<noteq> NONE_REG P \<Longrightarrow> py_index (reg_names P) (specflag3 op) = Inr r3"
    and "specflag4 op \<noteq> NONE_REG P \<Longrightarrow> py_index (reg_names P) (specflag4 op) = Inr r4"
  shows "notify_out_operand P H ctx op =
      (ctx @ [OutPrintf ((if dtyp op = dt_byte then ''byte ptr ''
                          else if dtyp op = dt_word then ''word ptr ''
                          else if dtyp op = dt_dword then ''dword ptr ''
                          else []) @ ''[''),
              OutRegister r1, OutPrintf '' + ''] @
         (if specflag2 op \<noteq> NONE_REG P then [OutRegister r2, OutPrintf '' + ''] else []) @
         (if specflag3 op \<noteq> NONE_REG P then [OutRegister r3, OutPrintf '' + ''] else []) @
         (if specflag4 op \<noteq> NONE_REG P then [OutRegister r4, OutPrintf '' + ''] else []) @
         [OutLong (op_value op) 16, OutPrintf '']''],
       Inr True) \<and>
    (dtyp op = dt_byte \<and> specflag2 op = NONE_REG P \<and> specflag3 op = NONE_REG P \<and>
     specflag4 op = NONE_REG P \<longrightarrow>
       notify_out_operand P H ctx op =
         (ctx @ [OutPrintf ''byte ptr ['', OutRegister r1, OutPrintf '' + '',
                 OutLong (op_value op) 16, OutPrintf '']''],
          Inr True))"
  using assms
  by (simp add: notify_out_operand_def out_operand_body_def const_defs out_defs
      out_register_at_ok)

text \<open>\<^verbatim>\<open>byte ptr [R1 + 10h]\<close>, and \<^verbatim>\<open>dword ptr [R1 + R2 + 10h]\<close> with the register \<^verbatim>\<open>R2\<close> in
  the third slot and the sentinel in the second and the fourth.\<close>

theorem out_operand_multi_base_sum_witness:
  "notify_out_operand ex_proc (stream_host []) [] (ex_sum dt_byte 1 0xFF 0xFF 0xFF 0x10) =
     ([OutPrintf ''byte ptr ['', OutRegister ''R1'', OutPrintf '' + '', OutLong 0x10 16,
       OutPrintf '']''], Inr True) \<and>
   notify_out_operand ex_proc (stream_host []) [] (ex_sum dt_dword 1 0xFF 2 0xFF 0x10) =
     ([OutPrintf ''dword ptr ['', OutRegister ''R1'', OutPrintf '' + '', OutRegister ''R2'',
       OutPrintf '' + '', OutLong 0x10 16, OutPrintf '']''], Inr True)"
proof -
  have t: "op_type (ex_sum w 1 a b c 0x10) = o_idpspec0" for w a b c
    by (simp add: ex_defs)
  have r1: "py_index (reg_names ex_proc) (specflag1 (ex_sum w 1 a b c 0x10)) = Inr ''R1''"
    for w a b c
    by (simp add: py_index_def ex_defs)
  have s2: "specflag2 (ex_sum w 1 0xFF b c 0x10) \<noteq> NONE_REG ex_proc \<Longrightarrow>
      py_index (reg_names ex_proc) (specflag2 (ex_sum w 1 0xFF b c 0x10)) = Inr ''R0''"
    for w b c
    by (simp add: ex_defs)
  have s3: "specflag3 (ex_sum w 1 a 0xFF c 0x10) \<noteq> NONE_REG ex_proc \<Longrightarrow>
      py_index (reg_names ex_proc) (specflag3 (ex_sum w 1 a 0xFF c 0x10)) = Inr ''R2''"
    for w a c
    by (simp add: ex_defs)
  have s3': "specflag3 (ex_sum w 1 a 2 c 0x10) \<noteq> NONE_REG ex_proc \<Longrightarrow>
      py_index (reg_names ex_proc) (specflag3 (ex_sum w 1 a 2 c 0x10)) = Inr ''R2''"
    for w a c
    by (simp add: py_index_def ex_defs)
  have s4: "specflag4 (ex_sum w 1 a b 0xFF 0x10) \<noteq> NONE_REG ex_proc \<Longrightarrow>
      py_index (reg_names ex_proc) (specflag4 (ex_sum w 1 a b 0xFF 0x10)) = Inr ''R0''"
    for w a b
    by (simp add: ex_defs)
  show ?thesis
    using out_operand_multi_base_sum [OF t r1 s2 s3 s4, where H = "stream_host []" and ctx = "[]"]
      out_operand_multi_base_sum [OF t r1 s2 s3' s4, where H = "stream_host []" and ctx = "[]"]
    by (simp add: ex_defs const_defs)
qed

text \<open>C8: for a direct address operand (\<^verbatim>\<open>o_near\<close> or \<^verbatim>\<open>o_mem\<close>), \<^verbatim>\<open>notify_out_operand\<close>
  asks the host for the name expression of \<^verbatim>\<open>op.addr\<close>: when there is one, it is the
  output; when there is none, the output is the address in radix 16 between the tags that
  switch \<^verbatim>\<open>COLOR_ERROR\<close> on and off. In both cases the call returns \<^verbatim>\<open>True\<close> and raises
  nothing, and \<^verbatim>\<open>notify_out_insn\<close> goes on after such an operand 0: it writes the
  separator and operand 1 when the feature has \<^verbatim>\<open>CF_USE2\<close>, and flushes.\<close>

theorem out_operand_direct_address:
  assumes "op_type op = o_near \<or> op_type op = o_mem"
  shows "notify_out_operand P H ctx op =
      (ctx @ (case name_expr H op (addr op) (BADADDR H) of
                Some s \<Rightarrow> [OutName s]
              | None \<Rightarrow> [OutTagOn COLOR_ERROR, OutLong (addr op) 16, OutTagOff COLOR_ERROR]),
       Inr True) \<and>
    (\<forall>insn. ops insn 0 = op \<and> get_canon_feature P insn AND CF_USE1 \<noteq> 0 \<and>
        (get_canon_feature P insn AND CF_USE2 \<noteq> 0 \<longrightarrow>
           snd (notify_out_operand P H [] (ops insn 1)) = Inr True) \<longrightarrow>
        notify_out_insn P H insn ctx =
          (ctx @ [OutMnem] @
             (case name_expr H op (addr op) (BADADDR H) of
                Some s \<Rightarrow> [OutName s]
              | None \<Rightarrow> [OutTagOn COLOR_ERROR, OutLong (addr op) 16, OutTagOff COLOR_ERROR]) @
             (if get_canon_feature P insn AND CF_USE2 \<noteq> 0
              then OutPrintf '', '' # fst (notify_out_operand P H [] (ops insn 1)) else []) @
             [FlushOutbuf],
           None))"
proof (intro conjI allI impI)
  show "notify_out_operand P H ctx op =
      (ctx @ (case name_expr H op (addr op) (BADADDR H) of
                Some s \<Rightarrow> [OutName s]
              | None \<Rightarrow> [OutTagOn COLOR_ERROR, OutLong (addr op) 16, OutTagOff COLOR_ERROR]),
       Inr True)"
    using assms by (rule direct_address_text)
next
  fix insn
  assume a: "ops insn 0 = op \<and> get_canon_feature P insn AND CF_USE1 \<noteq> 0 \<and>
        (get_canon_feature P insn AND CF_USE2 \<noteq> 0 \<longrightarrow>
           snd (notify_out_operand P H [] (ops insn 1)) = Inr True)"
  have op0: "notify_out_operand P H [] (ops insn 0) =
      ((case name_expr H op (addr op) (BADADDR H) of
                Some s \<Rightarrow> [OutName s]
              | None \<Rightarrow> [OutTagOn COLOR_ERROR, OutLong (addr op) 16, OutTagOff COLOR_ERROR]),
       Inr True)"
    using direct_address_text [OF assms, of P H "[]"] a by simp
  have "notify_out_insn P H insn ctx =
    (ctx @ [OutMnem] @
       (if get_canon_feature P insn AND CF_USE1 \<noteq> 0
        then fst (notify_out_operand P H [] (ops insn 0)) else []) @
       (if get_canon_feature P insn AND CF_USE2 \<noteq> 0
        then OutPrintf '', '' # fst (notify_out_operand P H [] (ops insn 1)) else []) @
       [FlushOutbuf], None)"
    using a op0 by (intro notify_out_insn_text) simp_all
  then show "notify_out_insn P H insn ctx =
          (ctx @ [OutMnem] @
             (case name_expr H op (addr op) (BADADDR H) of
                Some s \<Rightarrow> [OutName s]
              | None \<Rightarrow> [OutTagOn COLOR_ERROR, OutLong (addr op) 16, OutTagOff COLOR_ERROR]) @
             (if get_canon_feature P insn AND CF_USE2 \<noteq> 0
              then OutPrintf '', '' # fst (notify_out_operand P H [] (ops insn 1)) else []) @
             [FlushOutbuf],
           None)"
    using a op0 by simp
qed

text \<open>The address \<^verbatim>\<open>0x200\<close> has a name in one host and none in the other; and a two-operand
  instruction whose operand 0 has no name is written to its end.\<close>

theorem out_operand_direct_address_witness:
  "notify_out_operand ex_proc (named_host []) [] (ex_near 0x200) =
     ([OutName ''loc_200''], Inr True) \<and>
   notify_out_operand ex_proc (stream_host []) [] (ex_near 0x200) =
     ([OutTagOn COLOR_ERROR, OutLong 0x200 16, OutTagOff COLOR_ERROR], Inr True) \<and>
   notify_out_insn ex_proc (stream_host []) (ex_insn 0x100 0 3 (ex_near 0x200) (ex_reg 1)) [] =
     ([OutMnem, OutTagOn COLOR_ERROR, OutLong 0x200 16, OutTagOff COLOR_ERROR,
       OutPrintf '', '', OutRegister ''R1'', FlushOutbuf], None)"
proof -
  have t: "op_type (ex_near 0x200) = o_near \<or> op_type (ex_near 0x200) = o_mem"
    by (simp add: ex_defs)
  have pre: "ops (ex_insn 0x100 0 3 (ex_near 0x200) (ex_reg 1)) 0 = ex_near 0x200 \<and>
      get_canon_feature ex_proc (ex_insn 0x100 0 3 (ex_near 0x200) (ex_reg 1)) AND CF_USE1 \<noteq> 0 \<and>
      (get_canon_feature ex_proc (ex_insn 0x100 0 3 (ex_near 0x200) (ex_reg 1)) AND CF_USE2 \<noteq> 0
         \<longrightarrow> snd (notify_out_operand ex_proc (stream_host []) []
                  (ops (ex_insn 0x100 0 3 (ex_near 0x200) (ex_reg 1)) 1)) = Inr True)"
    by (simp add: canon_defs notify_out_operand_def out_operand_body_def out_register_at_def
        py_index_def out_defs ex_defs const_defs)
  have u2: "get_canon_feature ex_proc (ex_insn 0x100 0 3 (ex_near 0x200) (ex_reg 1))
      AND CF_USE2 \<noteq> 0"
    by (simp add: canon_defs ex_defs const_defs)
  have op1: "fst (notify_out_operand ex_proc (stream_host []) []
      (ops (ex_insn 0x100 0 3 (ex_near 0x200) (ex_reg 1)) 1)) = [OutRegister ''R1'']"
    by (simp add: notify_out_operand_def out_operand_body_def out_register_at_def
        py_index_def out_defs ex_defs const_defs)
  note thm1 = out_operand_direct_address
    [OF t, where P = ex_proc and H = "named_host []" and ctx = "[]"]
  note thm2 = out_operand_direct_address
    [OF t, where P = ex_proc and H = "stream_host []" and ctx = "[]"]
  have n1: "name_expr (named_host []) (ex_near 0x200) (addr (ex_near 0x200))
      (BADADDR (named_host [])) = Some ''loc_200''"
    by (simp add: ex_defs)
  have n2: "name_expr (stream_host []) (ex_near 0x200) (addr (ex_near 0x200))
      (BADADDR (stream_host [])) = None"
    by (simp add: ex_defs)
  have a200: "addr (ex_near 0x200) = 0x200"
    by (simp add: ex_defs)
  have "notify_out_operand ex_proc (named_host []) [] (ex_near 0x200) =
     ([OutName ''loc_200''], Inr True)"
    using thm1 n1 by simp
  moreover have "notify_out_operand ex_proc (stream_host []) [] (ex_near 0x200) =
     ([OutTagOn COLOR_ERROR, OutLong 0x200 16, OutTagOff COLOR_ERROR], Inr True)"
    using thm2 n2 a200 by simp
  moreover have "notify_out_insn ex_proc (stream_host [])
       (ex_insn 0x100 0 3 (ex_near 0x200) (ex_reg 1)) [] =
     ([OutMnem, OutTagOn COLOR_ERROR, OutLong 0x200 16, OutTagOff COLOR_ERROR,
       OutPrintf '', '', OutRegister ''R1'', FlushOutbuf], None)"
    using conjunct2 [OF thm2, rule_format, OF pre] n2 a200 u2 op1 by simp
  ultimately show ?thesis by blast
qed

section \<open>The instruction renderer\<close>

text \<open>C7, as the specification states it, fails: between the mnemonic and operand 1
  there is not a single space. \<^verbatim>\<open>notify_out_insn\<close> writes nothing of its own there, and
  the host's \<^verbatim>\<open>out_mnem\<close> pads the mnemonic field to 8 columns: the two-register move is
  the text \<^verbatim>\<open>mov\<close>, five spaces, \<^verbatim>\<open>R0, R1\<close>.\<close>

theorem notify_out_insn_space_counterexample:
  "line_text (\<lambda>i. []) ''mov''
     (fst (notify_out_insn ex_proc (stream_host [])
        (ex_insn 0x100 0 3 (ex_reg 0) (ex_reg 1)) [])) = ''mov     R0, R1'' \<and>
   line_text (\<lambda>i. []) ''mov''
     (fst (notify_out_insn ex_proc (stream_host [])
        (ex_insn 0x100 0 3 (ex_reg 0) (ex_reg 1)) [])) \<noteq> ''mov R0, R1'' \<and>
   get_canon_mnem ex_proc (ex_insn 0x100 0 3 (ex_reg 0) (ex_reg 1)) = Some ''mov''"
  by (simp add: notify_out_insn_def out_one_operand_def notify_out_operand_def
      out_operand_body_def out_register_at_def py_index_def out_defs canon_defs ex_defs
      const_defs line_text_def out_mnem_text_def replicate_five)

text \<open>C7, amended: for a feature that has \<^verbatim>\<open>CF_USE2\<close> only together with \<^verbatim>\<open>CF_USE1\<close>,
  and operands that raise nothing, \<^verbatim>\<open>notify_out_insn\<close> writes the mnemonic with the
  host's \<^verbatim>\<open>out_mnem\<close>, whose field is the mnemonic padded with spaces to 8 columns (one
  space when the mnemonic fills them); then, with \<^verbatim>\<open>CF_USE1\<close>, the text of operand 1
  directly after the field; then, with \<^verbatim>\<open>CF_USE2\<close> also, \<^verbatim>\<open>, \<close> and the text of
  operand 2; then it flushes. The operands written are those of the feature flags, at
  most two, whatever the operand slots hold. The first part is the output as items, the
  second its text.\<close>

theorem notify_out_insn_by_flags:
  assumes "get_canon_feature P insn AND CF_USE2 \<noteq> 0 \<Longrightarrow>
             get_canon_feature P insn AND CF_USE1 \<noteq> 0"
    and "get_canon_feature P insn AND CF_USE1 \<noteq> 0 \<Longrightarrow>
             snd (notify_out_operand P H [] (ops insn 0)) = Inr True"
    and "get_canon_feature P insn AND CF_USE2 \<noteq> 0 \<Longrightarrow>
             snd (notify_out_operand P H [] (ops insn 1)) = Inr True"
  shows "notify_out_insn P H insn ctx =
      (ctx @ [OutMnem] @
         (if get_canon_feature P insn AND CF_USE1 \<noteq> 0
          then fst (notify_out_operand P H [] (ops insn 0)) @
               (if get_canon_feature P insn AND CF_USE2 \<noteq> 0
                then OutPrintf '', '' # fst (notify_out_operand P H [] (ops insn 1))
                else [])
          else []) @
         [FlushOutbuf],
       None) \<and>
    line_text num mn (fst (notify_out_insn P H insn [])) =
      out_mnem_text mn @
      (if get_canon_feature P insn AND CF_USE1 \<noteq> 0
       then line_text num mn (fst (notify_out_operand P H [] (ops insn 0))) @
            (if get_canon_feature P insn AND CF_USE2 \<noteq> 0
             then '', '' @ line_text num mn (fst (notify_out_operand P H [] (ops insn 1)))
             else [])
       else [])"
proof -
  have items: "notify_out_insn P H insn c =
    (c @ [OutMnem] @
       (if get_canon_feature P insn AND CF_USE1 \<noteq> 0
        then fst (notify_out_operand P H [] (ops insn 0)) else []) @
       (if get_canon_feature P insn AND CF_USE2 \<noteq> 0
        then OutPrintf '', '' # fst (notify_out_operand P H [] (ops insn 1)) else []) @
       [FlushOutbuf], None)" for c
    using assms(2,3) by (rule notify_out_insn_text)
  show ?thesis
    using assms(1) by (simp add: items line_text_def)
qed

text \<open>The move writes its two registers, after the mnemonic field of 8 columns; the
  return writes none, although both of its operand slots hold a register.\<close>

theorem notify_out_insn_by_flags_witness:
  "notify_out_insn ex_proc (stream_host []) (ex_insn 0x100 0 3 (ex_reg 0) (ex_reg 1)) [] =
     ([OutMnem, OutRegister ''R0'', OutPrintf '', '', OutRegister ''R1'', FlushOutbuf], None) \<and>
   line_text (\<lambda>i. []) ''mov''
     (fst (notify_out_insn ex_proc (stream_host [])
        (ex_insn 0x100 0 3 (ex_reg 0) (ex_reg 1)) [])) = ''mov     R0, R1'' \<and>
   notify_out_insn ex_proc (stream_host []) (ex_insn 0x100 2 1 (ex_reg 0) (ex_reg 1)) [] =
     ([OutMnem, FlushOutbuf], None) \<and>
   line_text (\<lambda>i. []) ''ret''
     (fst (notify_out_insn ex_proc (stream_host [])
        (ex_insn 0x100 2 1 (ex_reg 0) (ex_reg 1)) [])) = ''ret     ''"
proof -
  have r: "notify_out_operand ex_proc (stream_host []) [] (ex_reg 0) =
        ([OutRegister ''R0''], Inr True)"
      "notify_out_operand ex_proc (stream_host []) [] (ex_reg 1) =
        ([OutRegister ''R1''], Inr True)"
    by (simp_all add: notify_out_operand_def out_operand_body_def out_register_at_def
        py_index_def out_defs ex_defs const_defs)
  have o: "ops (ex_insn a t n o0 o1) 0 = o0" "ops (ex_insn a t n o0 o1) (Suc 0) = o1"
    for a t n o0 o1
    by (simp_all add: ex_insn_def)
  have mov: "get_canon_feature ex_proc (ex_insn 0x100 0 3 o0 o1) = CF_USE1 OR CF_USE2" for o0 o1
    by (simp add: canon_defs ex_defs)
  have ret: "get_canon_feature ex_proc (ex_insn 0x100 2 1 o0 o1) = CF_STOP" for o0 o1
    by (simp add: canon_defs ex_defs)
  have "notify_out_insn ex_proc (stream_host []) (ex_insn 0x100 0 3 (ex_reg 0) (ex_reg 1)) [] =
     ([OutMnem, OutRegister ''R0'', OutPrintf '', '', OutRegister ''R1'', FlushOutbuf], None) \<and>
   line_text (\<lambda>i. []) ''mov''
     (fst (notify_out_insn ex_proc (stream_host [])
        (ex_insn 0x100 0 3 (ex_reg 0) (ex_reg 1)) [])) = ''mov     R0, R1''"
    using notify_out_insn_by_flags [where P = ex_proc and H = "stream_host []"
        and insn = "ex_insn 0x100 0 3 (ex_reg 0) (ex_reg 1)" and ctx = "[]"
        and num = "\<lambda>i. []" and mn = "''mov''"]
    by (simp add: o r mov const_defs line_text_def out_mnem_text_def replicate_five)
  moreover have
    "notify_out_insn ex_proc (stream_host []) (ex_insn 0x100 2 1 (ex_reg 0) (ex_reg 1)) [] =
     ([OutMnem, FlushOutbuf], None) \<and>
   line_text (\<lambda>i. []) ''ret''
     (fst (notify_out_insn ex_proc (stream_host [])
        (ex_insn 0x100 2 1 (ex_reg 0) (ex_reg 1)) [])) = ''ret     ''"
    using notify_out_insn_by_flags [where P = ex_proc and H = "stream_host []"
        and insn = "ex_insn 0x100 2 1 (ex_reg 0) (ex_reg 1)" and ctx = "[]"
        and num = "\<lambda>i. []" and mn = "''ret''"]
    by (simp add: o r ret const_defs line_text_def out_mnem_text_def replicate_five)
  ultimately show ?thesis by blast
qed

end
